theory Spec2Isabelle
  imports Main
begin

section \<open>Data model of \<open>App.tsx\<close>\<close>

text \<open>
  The component \<open>App\<close> keeps six pieces of React state and three refs. Its event handlers
  call the state setters in a fixed order and, in two handlers, await an asynchronous
  helper (\<open>fileToBase64\<close>, \<open>editImage\<close>). A handler is modelled as the list of
  setter calls and helper calls it makes, in program order; running the setter calls
  against a state gives the state the next render sees.
\<close>

text \<open>
  \<open>interface OriginalImage\<close>. The field \<open>base64\<close> is filled with
  \<open>s.split(',')[1]\<close>, which is \<open>undefined\<close> when \<open>s\<close> has no comma: \<open>None\<close>
  stands for \<open>undefined\<close>.
\<close>

record OriginalImage =
  base64 :: "string option"
  mimeType :: string
  name :: string

text \<open>The six \<open>useState\<close> cells; \<open>None\<close> stands for \<open>null\<close>.\<close>

record ui_state =
  originalImage :: "OriginalImage option"
  editedImage :: "string option"
  prompt :: string
  isLoading :: bool
  error :: "string option"
  isCameraOpen :: bool

text \<open>What the handlers read of a \<open>File\<close>: \<open>file.type\<close> and \<open>file.name\<close>.\<close>

record File =
  ftype :: string
  fname :: string

text \<open>
  The calls a handler makes: the six setters, and the two awaited helpers with their
  arguments.
\<close>

datatype action =
    SetOriginalImage "OriginalImage option"
  | SetEditedImage "string option"
  | SetPrompt string
  | SetIsLoading bool
  | SetError "string option"
  | SetIsCameraOpen bool
  | CallFileToBase64 File
  | CallEditImage "string option" string string

fun perform :: "action \<Rightarrow> ui_state \<Rightarrow> ui_state" where
  "perform (SetOriginalImage v) s = s\<lparr>originalImage := v\<rparr>"
| "perform (SetEditedImage v) s = s\<lparr>editedImage := v\<rparr>"
| "perform (SetPrompt v) s = s\<lparr>prompt := v\<rparr>"
| "perform (SetIsLoading v) s = s\<lparr>isLoading := v\<rparr>"
| "perform (SetError v) s = s\<lparr>error := v\<rparr>"
| "perform (SetIsCameraOpen v) s = s\<lparr>isCameraOpen := v\<rparr>"
| "perform (CallFileToBase64 f) s = s"
| "perform (CallEditImage b m p) s = s"

definition run_actions :: "ui_state \<Rightarrow> action list \<Rightarrow> ui_state" where
  "run_actions s acts = fold perform acts s"

fun is_call :: "action \<Rightarrow> bool" where
  "is_call (CallFileToBase64 f) = True"
| "is_call (CallEditImage b m p) = True"
| "is_call a = False"

section \<open>String helpers of the host language\<close>

text \<open>\<open>s.startsWith(p)\<close>.\<close>

definition startsWith :: "string \<Rightarrow> string \<Rightarrow> bool" where
  "startsWith s p = (take (length p) s = p)"

text \<open>
  \<open>s.split(',')\<close>: the pieces of \<open>s\<close> between commas; a string without a comma gives
  one piece, the empty string gives \<open>['']\<close>.
\<close>

fun split_comma :: "string \<Rightarrow> string list" where
  "split_comma [] = [[]]"
| "split_comma (c # cs) =
     (if c = CHR '','' then [] # split_comma cs
      else (case split_comma cs of
              [] \<Rightarrow> [[c]]
            | w # ws \<Rightarrow> (c # w) # ws))"

text \<open>\<open>xs[i]\<close> on an array: \<open>undefined\<close> out of range.\<close>

definition at_index :: "'a list \<Rightarrow> nat \<Rightarrow> 'a option" where
  "at_index xs i = (if i < length xs then Some (xs ! i) else None)"

section \<open>File selection: \<open>handleFileChange\<close>\<close>

text \<open>
  The outcome of \<open>await fileToBase64(file)\<close>: the promise resolves with a string or the
  \<open>try\<close> block throws.
\<close>

datatype read_outcome = ReadOk string | ReadFailed

definition invalid_file_msg :: string where
  "invalid_file_msg = ''Please upload a valid image file (PNG, JPG, etc.).''"

definition read_failed_msg :: string where
  "read_failed_msg = ''Failed to read the image file.''"

text \<open>
  Lines 49-58: the part that runs before the \<open>await\<close>. The argument is
  \<open>event.target.files?.[0]\<close>, \<open>None\<close> when the event carries no file.
\<close>

definition handleFileChange_sync :: "File option \<Rightarrow> action list" where
  "handleFileChange_sync fo =
     (case fo of
        None \<Rightarrow> []
      | Some f \<Rightarrow>
          if \<not> startsWith (ftype f) ''image/'' then [SetError (Some invalid_file_msg)]
          else [SetError None, SetEditedImage None, CallFileToBase64 f])"

text \<open>Lines 58-67: the part that runs once the read has settled.\<close>

definition handleFileChange_settle :: "File \<Rightarrow> read_outcome \<Rightarrow> action list" where
  "handleFileChange_settle f r =
     (case r of
        ReadOk url \<Rightarrow>
          [SetOriginalImage (Some \<lparr>base64 = at_index (split_comma url) 1,
                                   mimeType = ftype f, name = fname f\<rparr>)]
      | ReadFailed \<Rightarrow> [SetError (Some read_failed_msg), SetOriginalImage None])"

text \<open>The whole handler, for a read that settles with \<open>r\<close>.\<close>

definition handleFileChange :: "File option \<Rightarrow> read_outcome \<Rightarrow> action list" where
  "handleFileChange fo r =
     (case fo of
        None \<Rightarrow> handleFileChange_sync fo
      | Some f \<Rightarrow>
          if list_ex is_call (handleFileChange_sync fo)
          then handleFileChange_sync fo @ handleFileChange_settle f r
          else handleFileChange_sync fo)"

section \<open>Snapping a photo: \<open>handleTakePhoto\<close>\<close>

text \<open>
  \<open>String(n)\<close> for an integral number below \<open>1e21\<close> in magnitude, which covers every
  value of \<open>Date.now()\<close>: the decimal digits, with a minus sign when negative.
\<close>

fun decimal :: "nat \<Rightarrow> string" where
  "decimal n =
     (if n < 10 then [''0123456789'' ! n]
      else decimal (n div 10) @ [''0123456789'' ! (n mod 10)])"

declare decimal.simps [simp del]

definition number_text :: "int \<Rightarrow> string" where
  "number_text i = (if i < 0 then CHR ''-'' # decimal (nat (- i)) else decimal (nat i))"

text \<open>
  Lines 71-93. \<open>video\<close> and \<open>canvas\<close> say whether \<open>videoRef.current\<close> and
  \<open>canvasRef.current\<close> are non-null; \<open>ctx\<close> is \<open>None\<close> when
  \<open>canvas.getContext('2d')\<close> returns \<open>null\<close> and otherwise holds what
  \<open>canvas.toDataURL('image/jpeg')\<close> returns after the frame is drawn; \<open>now\<close> is
  \<open>Date.now()\<close>.
\<close>

definition handleTakePhoto :: "bool \<Rightarrow> bool \<Rightarrow> string option \<Rightarrow> int \<Rightarrow> action list" where
  "handleTakePhoto video canvas ctx now =
     (if video \<and> canvas then
        (case ctx of
           None \<Rightarrow> []
         | Some dataUrl \<Rightarrow>
             [SetOriginalImage (Some \<lparr>base64 = at_index (split_comma dataUrl) 1,
                                      mimeType = ''image/jpeg'',
                                      name = ''webcam-photo-'' @ number_text now @ ''.jpg''\<rparr>),
              SetEditedImage None,
              SetError None,
              SetIsCameraOpen False])
      else [])"

section \<open>Submitting an edit: \<open>handleGenerateClick\<close>\<close>

text \<open>
  The outcome of \<open>await editImage(...)\<close>: the promise resolves with a string or with
  \<open>null\<close>/\<open>undefined\<close> (\<open>Returned\<close>), or it rejects. \<open>Threw m\<close> is a rejection with
  an object whose \<open>message\<close> renders as \<open>m\<close> in the template literal of line 111;
  \<open>ThrewNullish\<close> is a rejection with \<open>null\<close> or \<open>undefined\<close>, on which
  \<open>err.message\<close> itself throws inside the \<open>catch\<close> block, so that \<open>setError\<close> is not
  reached and only the \<open>finally\<close> block runs.
\<close>

datatype remote_outcome = Returned "string option" | Threw string | ThrewNullish

definition need_input_msg :: string where
  "need_input_msg = ''Please upload an image and provide a prompt.''"

definition no_image_msg :: string where
  "no_image_msg = ''The model did not return an image. Please try a different prompt.''"

definition error_prefix :: string where
  "error_prefix = ''An error occurred: ''"

definition png_prefix :: string where
  "png_prefix = ''data:image/png;base64,''"

text \<open>
  Lines 96-104: the guard and the part that runs up to the \<open>await\<close>. The closure reads
  \<open>originalImage\<close> and \<open>prompt\<close> of the current render; an empty prompt is falsy.
\<close>

definition handleGenerateClick_sync :: "ui_state \<Rightarrow> action list" where
  "handleGenerateClick_sync s =
     (case originalImage s of
        None \<Rightarrow> [SetError (Some need_input_msg)]
      | Some img \<Rightarrow>
          if prompt s = [] then [SetError (Some need_input_msg)]
          else [SetIsLoading True,
                SetError None,
                SetEditedImage None,
                CallEditImage (base64 img) (mimeType img) (prompt s)])"

text \<open>
  Lines 104-114: the part that runs once the call has settled. A resolved value is tested
  for truthiness: \<open>null\<close>, \<open>undefined\<close> and the empty string take the \<open>else\<close> branch,
  whose \<open>Error\<close> is caught by the same \<open>catch\<close> block as a rejection.
\<close>

definition handleGenerateClick_settle :: "remote_outcome \<Rightarrow> action list" where
  "handleGenerateClick_settle out =
     (case out of
        Returned r \<Rightarrow>
          (case r of
             None \<Rightarrow> [SetError (Some (error_prefix @ no_image_msg)), SetIsLoading False]
           | Some generatedImageBase64 \<Rightarrow>
               if generatedImageBase64 = []
               then [SetError (Some (error_prefix @ no_image_msg)), SetIsLoading False]
               else [SetEditedImage (Some (png_prefix @ generatedImageBase64)),
                     SetIsLoading False])
      | Threw m \<Rightarrow> [SetError (Some (error_prefix @ m)), SetIsLoading False]
      | ThrewNullish \<Rightarrow> [SetIsLoading False])"

text \<open>The whole handler, for a remote call that settles with \<open>out\<close>.\<close>

definition handleGenerateClick :: "ui_state \<Rightarrow> remote_outcome \<Rightarrow> action list" where
  "handleGenerateClick s out =
     (if list_ex is_call (handleGenerateClick_sync s)
      then handleGenerateClick_sync s @ handleGenerateClick_settle out
      else handleGenerateClick_sync s)"

section \<open>The camera effect and the component as a transition system\<close>

text \<open>
  Besides the UI state the component holds \<open>videoRef\<close> (non-null exactly while the
  camera dialog's \<open>video\<close> element is rendered) and \<open>streamRef\<close>. Streams are named by
  the number of the \<open>getUserMedia\<close> call that yields them. \<open>pending\<close> lists the calls
  whose promise has not settled, \<open>acquired\<close> the streams the device has handed out, and
  \<open>stopped\<close> logs each stream whose tracks were stopped, once per time they were stopped.
\<close>

record app =
  ui :: ui_state
  mounted :: bool
  videoRef :: bool
  streamRef :: "nat option"
  requests :: nat
  pending :: "nat list"
  acquired :: "nat list"
  stopped :: "nat list"

text \<open>Lines 40-45: the cleanup function of the effect.\<close>

definition effect_cleanup :: "app \<Rightarrow> app" where
  "effect_cleanup a =
     (case streamRef a of
        None \<Rightarrow> a
      | Some st \<Rightarrow> a\<lparr>stopped := stopped a @ [st], streamRef := None\<rparr>)"

text \<open>Lines 25-38: the effect body, up to the call of \<open>getUserMedia\<close>.\<close>

definition effect_body :: "app \<Rightarrow> app" where
  "effect_body a =
     (if isCameraOpen (ui a)
      then a\<lparr>pending := pending a @ [requests a], requests := Suc (requests a)\<rparr>
      else a)"

text \<open>
  What React does after a handler has run, given the value \<open>isCameraOpen\<close> had before:
  the effect has the dependency list \<open>[isCameraOpen]\<close>, so when that value has changed
  the \<open>video\<close> element is mounted or unmounted with the dialog (line 260), the cleanup of
  the previous effect runs, and the effect body runs again.
\<close>

definition rerender :: "bool \<Rightarrow> app \<Rightarrow> app" where
  "rerender was a =
     (if isCameraOpen (ui a) = was then a
      else effect_body (effect_cleanup (a\<lparr>videoRef := isCameraOpen (ui a)\<rparr>)))"

text \<open>Setter calls of a handler; React ignores them once the component is unmounted.\<close>

definition dispatch :: "action list \<Rightarrow> app \<Rightarrow> app" where
  "dispatch acts a =
     (if mounted a
      then rerender (isCameraOpen (ui a)) (a\<lparr>ui := run_actions (ui a) acts\<rparr>)
      else a)"

definition camera_error_msg :: string where
  "camera_error_msg =
     ''Could not access the camera. Please check permissions and try again.''"

text \<open>
  The events of the component. Each asynchronous handler contributes two: the part up
  to its \<open>await\<close> and the part after it, since other events may come in between. The
  handlers are dispatched as written; the \<open>disabled\<close> attributes of the buttons are
  not modelled, and a settle event is accepted at any time. The stream events are accepted
  only for a pending \<open>getUserMedia\<close> call.
\<close>

datatype event =
    FileChosen "File option"
  | FileReadSettled File read_outcome
  | CameraClicked
  | CancelClicked
  | SnapClicked "string option" int
  | StreamResolved nat
  | StreamRejected nat
  | GenerateClicked
  | GenerateSettled remote_outcome
  | PromptTyped string
  | DownloadClicked
  | Unmounted

fun step :: "app \<Rightarrow> event \<Rightarrow> app" where
  "step a (FileChosen fo) = dispatch (handleFileChange_sync fo) a"
| "step a (FileReadSettled f r) = dispatch (handleFileChange_settle f r) a"
| "step a CameraClicked = dispatch [SetIsCameraOpen True] a"
| "step a CancelClicked = dispatch [SetIsCameraOpen False] a"
| "step a (SnapClicked ctx now) =
     dispatch (handleTakePhoto (videoRef a) (mounted a) ctx now) a"
| "step a (StreamResolved n) =
     (if n \<in> set (pending a)
      then (if videoRef a
            then a\<lparr>pending := removeAll n (pending a), acquired := acquired a @ [n],
                   streamRef := Some n\<rparr>
            else a\<lparr>pending := removeAll n (pending a), acquired := acquired a @ [n]\<rparr>)
      else a)"
| "step a (StreamRejected n) =
     (if n \<in> set (pending a)
      then dispatch [SetError (Some camera_error_msg), SetIsCameraOpen False]
             (a\<lparr>pending := removeAll n (pending a)\<rparr>)
      else a)"
| "step a GenerateClicked = dispatch (handleGenerateClick_sync (ui a)) a"
| "step a (GenerateSettled out) = dispatch (handleGenerateClick_settle out) a"
| "step a (PromptTyped p) = dispatch [SetPrompt p] a"
| "step a DownloadClicked = a"
| "step a Unmounted =
     (if mounted a then (effect_cleanup a)\<lparr>mounted := False, videoRef := False\<rparr> else a)"

definition run_events :: "app \<Rightarrow> event list \<Rightarrow> app" where
  "run_events a evs = foldl step a evs"

definition default_prompt :: string where
  "default_prompt = ''Convert the face in the image into a SpongeBob-style face; however, the face should stay human. The face should look realistic and have subtle changes, like a slightly yellow face with a few holes, goofy teeth, bigger eyes, and a smile, while also keeping the background.''"

text \<open>Lines 13-22 and the first render, whose effect does nothing as the camera is closed.\<close>

definition init_ui :: ui_state where
  "init_ui = \<lparr>originalImage = None, editedImage = None, prompt = default_prompt,
              isLoading = False, error = None, isCameraOpen = False\<rparr>"

definition init_app :: app where
  "init_app = \<lparr>ui = init_ui, mounted = True, videoRef = False, streamRef = None,
               requests = 0, pending = [], acquired = [], stopped = []\<rparr>"

text \<open>
  The shape every non-absent \<open>editedImage\<close> has: it starts with the PNG data-URL prefix.
\<close>

definition edited_ok :: "ui_state \<Rightarrow> bool" where
  "edited_ok s =
     (case editedImage s of None \<Rightarrow> True | Some d \<Rightarrow> startsWith d png_prefix)"

text \<open>
  The specification's wording for the stored payload, "the portion after the first comma
  of the data URL", written out for comparison with \<open>split(',')[1]\<close>.
\<close>

definition after_first_comma :: "string \<Rightarrow> string" where
  "after_first_comma s = drop 1 (dropWhile (\<lambda>c. c \<noteq> CHR '','') s)"

text \<open>
  Bookkeeping of the streams: the logs hold no stream twice, only acquired streams are
  stopped, a pending request is not yet acquired, every request made has a number below
  \<open>requests\<close>, and the stream held in \<open>streamRef\<close> is acquired and not yet stopped.
\<close>

definition streams_wf :: "app \<Rightarrow> bool" where
  "streams_wf a =
     (distinct (stopped a) \<and> distinct (acquired a) \<and> distinct (pending a) \<and>
      set (stopped a) \<subseteq> set (acquired a) \<and>
      set (pending a) \<inter> set (acquired a) = {} \<and>
      (\<forall>n \<in> set (pending a). n < requests a) \<and>
      (\<forall>n \<in> set (acquired a). n < requests a) \<and>
      (case streamRef a of
         None \<Rightarrow> True
       | Some n \<Rightarrow> n \<in> set (acquired a) \<and> n \<notin> set (stopped a)))"

section \<open>Auxiliary facts\<close>

lemmas file_defs =
  handleFileChange_def handleFileChange_sync_def handleFileChange_settle_def run_actions_def

lemmas generate_defs =
  handleGenerateClick_def handleGenerateClick_sync_def handleGenerateClick_settle_def
  run_actions_def

subsection \<open>Splitting at commas\<close>

lemma split_comma_nonempty: "split_comma s \<noteq> []"
  by (induction s) (auto split: list.splits)

lemma hd_split_comma: "hd (split_comma s) = takeWhile (\<lambda>c. c \<noteq> CHR '','') s"
  by (induction s) (auto split: list.splits simp: split_comma_nonempty)

text \<open>
  The second piece of a split is what lies between the first comma and the next one (or
  the end of the string); a string without a comma has no second piece.
\<close>

lemma second_piece:
  "at_index (split_comma s) (Suc 0) =
     (if CHR '','' \<in> set s
      then Some (takeWhile (\<lambda>c. c \<noteq> CHR '','') (after_first_comma s))
      else None)"
proof (induction s)
  case Nil
  show ?case by (simp add: at_index_def)
next
  case (Cons c cs)
  obtain w ws where w: "split_comma cs = w # ws"
    using split_comma_nonempty [of cs] by (cases "split_comma cs") auto
  show ?case
  proof (cases "c = CHR '',''")
    case True
    have "w = takeWhile (\<lambda>c. c \<noteq> CHR '','') cs"
      using hd_split_comma [of cs] w by simp
    with True w show ?thesis
      by (simp add: at_index_def after_first_comma_def)
  next
    case False
    have "at_index (split_comma (c # cs)) (Suc 0) = at_index (split_comma cs) (Suc 0)"
      using False w by (simp add: at_index_def)
    with False Cons show ?thesis
      by (simp add: after_first_comma_def)
  qed
qed

subsection \<open>The UI state under the transition system\<close>

lemma ui_rerender: "ui (rerender was a) = ui a"
  by (simp add: rerender_def effect_body_def effect_cleanup_def split: option.splits)

lemma ui_dispatch:
  "ui (dispatch acts a) = (if mounted a then run_actions (ui a) acts else ui a)"
  by (simp add: dispatch_def ui_rerender)

lemma ui_effect_cleanup: "ui (effect_cleanup a) = ui a"
  by (simp add: effect_cleanup_def split: option.splits)

lemma startsWith_append: "startsWith (p @ r) p"
  by (simp add: startsWith_def)

lemma run_events_Cons: "run_events a (e # evs) = run_events (step a e) evs"
  by (simp add: run_events_def)

text \<open>
  Where a value of \<open>editedImage\<close> comes from: an event either leaves it as it was, clears
  it, or is the settling of a remote call that returned a non-empty payload.
\<close>

lemma edited_after_step:
  "editedImage (ui (step a e)) = Some d \<Longrightarrow>
     editedImage (ui a) = Some d \<or>
     (\<exists>p. e = GenerateSettled (Returned (Some p)) \<and> p \<noteq> [] \<and> d = png_prefix @ p)"
proof (cases e)
  case (FileChosen fo)
  assume "editedImage (ui (step a e)) = Some d"
  with FileChosen show ?thesis
    by (auto simp: ui_dispatch handleFileChange_sync_def run_actions_def
             split: option.splits if_splits)
next
  case (FileReadSettled f r)
  assume "editedImage (ui (step a e)) = Some d"
  with FileReadSettled show ?thesis
    by (cases r) (auto simp: ui_dispatch handleFileChange_settle_def run_actions_def
                       split: if_splits)
next
  case (SnapClicked ctx now)
  assume "editedImage (ui (step a e)) = Some d"
  with SnapClicked show ?thesis
    by (auto simp: ui_dispatch handleTakePhoto_def run_actions_def
             split: option.splits if_splits)
next
  case (StreamResolved n)
  assume "editedImage (ui (step a e)) = Some d"
  with StreamResolved show ?thesis
    by (auto split: if_splits)
next
  case (StreamRejected n)
  assume "editedImage (ui (step a e)) = Some d"
  with StreamRejected show ?thesis
    by (auto simp: ui_dispatch run_actions_def split: if_splits)
next
  case GenerateClicked
  assume "editedImage (ui (step a e)) = Some d"
  with GenerateClicked show ?thesis
    by (auto simp: ui_dispatch handleGenerateClick_sync_def run_actions_def
             split: option.splits if_splits)
next
  case (GenerateSettled out)
  assume "editedImage (ui (step a e)) = Some d"
  with GenerateSettled show ?thesis
    by (cases out) (auto simp: ui_dispatch handleGenerateClick_settle_def run_actions_def
                         split: option.splits if_splits)
next
  case Unmounted
  assume "editedImage (ui (step a e)) = Some d"
  with Unmounted show ?thesis
    by (auto simp: ui_effect_cleanup split: if_splits)
qed (auto simp: ui_dispatch run_actions_def split: if_splits)

lemma edited_after_run:
  "editedImage (ui (run_events a evs)) = Some d \<Longrightarrow>
     editedImage (ui a) = Some d \<or>
     (\<exists>p. GenerateSettled (Returned (Some p)) \<in> set evs \<and> p \<noteq> [] \<and> d = png_prefix @ p)"
proof (induction evs arbitrary: a)
  case Nil
  then show ?case by (simp add: run_events_def)
next
  case (Cons e evs)
  from Cons.prems have "editedImage (ui (run_events (step a e) evs)) = Some d"
    by (simp add: run_events_Cons)
  from Cons.IH [OF this] show ?case
  proof
    assume "editedImage (ui (step a e)) = Some d"
    from edited_after_step [OF this] show ?thesis by auto
  next
    assume "\<exists>p. GenerateSettled (Returned (Some p)) \<in> set evs \<and> p \<noteq> [] \<and> d = png_prefix @ p"
    then show ?thesis by auto
  qed
qed

lemma edited_ok_step: "edited_ok (ui a) \<Longrightarrow> edited_ok (ui (step a e))"
proof -
  assume ok: "edited_ok (ui a)"
  show ?thesis
  proof (cases "editedImage (ui (step a e))")
    case None
    then show ?thesis by (simp add: edited_ok_def)
  next
    case (Some d)
    from edited_after_step [OF Some] ok Some show ?thesis
      by (auto simp: edited_ok_def startsWith_append)
  qed
qed

lemma edited_ok_run: "edited_ok (ui a) \<Longrightarrow> edited_ok (ui (run_events a evs))"
  by (induction evs arbitrary: a) (simp_all add: run_events_def edited_ok_step)

subsection \<open>The camera stream\<close>

text \<open>
  A stream that is neither pending nor held in \<open>streamRef\<close> is out of the component's
  reach: no later event stops it. Stated for stream \<open>0\<close>, once a request has been made.
\<close>

lemma stream_zero_lost_step:
  assumes "streamRef a \<noteq> Some 0" and "0 \<notin> set (pending a)" and "0 \<notin> set (stopped a)"
    and "0 < requests a"
  shows "streamRef (step a e) \<noteq> Some 0 \<and> 0 \<notin> set (pending (step a e)) \<and>
         0 \<notin> set (stopped (step a e)) \<and> 0 < requests (step a e)"
proof -
  have positive: "0 < n" if "n \<in> set (pending a)" for n
    using that assms(2) by (metis not_gr_zero)
  show ?thesis
    using assms positive
    by (cases e)
       (auto simp: dispatch_def rerender_def effect_body_def effect_cleanup_def
             split: option.splits if_splits)
qed

lemma stream_zero_lost_run:
  assumes "streamRef a \<noteq> Some 0" and "0 \<notin> set (pending a)" and "0 \<notin> set (stopped a)"
    and "0 < requests a"
  shows "0 \<notin> set (stopped (run_events a evs))"
  using assms
proof (induction evs arbitrary: a)
  case Nil
  then show ?case by (simp add: run_events_def)
next
  case (Cons e evs)
  from stream_zero_lost_step [OF Cons.prems, of e] Cons.IH [of "step a e"]
  show ?case by (simp add: run_events_Cons)
qed

lemma cancel_before_resolve:
  "run_events init_app [CameraClicked, CancelClicked, StreamResolved 0] =
     init_app\<lparr>requests := 1, acquired := [0]\<rparr>"
  by (simp add: run_events_def init_app_def init_ui_def dispatch_def rerender_def
        effect_body_def effect_cleanup_def run_actions_def)

text \<open>
  Two more runs: a stream that resolves before the cancel is stopped once; when the camera
  is reopened before the first request resolves, the second stream replaces the first in
  \<open>streamRef\<close> and only the second is stopped.
\<close>

lemma reopen_before_resolve:
  "acquired (run_events init_app
     [CameraClicked, CancelClicked, CameraClicked, StreamResolved 0, StreamResolved 1,
      CancelClicked]) = [0, 1] \<and>
   stopped (run_events init_app
     [CameraClicked, CancelClicked, CameraClicked, StreamResolved 0, StreamResolved 1,
      CancelClicked]) = [1]"
  by (simp add: run_events_def init_app_def init_ui_def dispatch_def rerender_def
        effect_body_def effect_cleanup_def run_actions_def)

lemma resolve_before_cancel:
  "acquired (run_events init_app [CameraClicked, StreamResolved 0, CancelClicked]) = [0] \<and>
   stopped (run_events init_app [CameraClicked, StreamResolved 0, CancelClicked]) = [0]"
  by (simp add: run_events_def init_app_def init_ui_def dispatch_def rerender_def
        effect_body_def effect_cleanup_def run_actions_def)

text \<open>
  The bookkeeping holds in every reachable state; in particular no stream is ever stopped
  twice, and only acquired streams are stopped.
\<close>

lemma streams_wf_init: "streams_wf init_app"
  by (simp add: streams_wf_def init_app_def)

lemma streams_wf_cleanup: "streams_wf a \<Longrightarrow> streams_wf (effect_cleanup a)"
  by (auto simp: streams_wf_def effect_cleanup_def split: option.splits)

lemma streams_wf_body: "streams_wf a \<Longrightarrow> streams_wf (effect_body a)"
  by (fastforce simp: streams_wf_def effect_body_def split: option.splits)

lemma streams_wf_ui: "streams_wf (a\<lparr>ui := u\<rparr>) = streams_wf a"
  by (auto simp: streams_wf_def split: option.splits)

lemma streams_wf_videoRef: "streams_wf (a\<lparr>videoRef := v\<rparr>) = streams_wf a"
  by (auto simp: streams_wf_def split: option.splits)

lemma streams_wf_mounted: "streams_wf (a\<lparr>mounted := v\<rparr>) = streams_wf a"
  by (auto simp: streams_wf_def split: option.splits)

lemma streams_wf_rerender: "streams_wf a \<Longrightarrow> streams_wf (rerender was a)"
  by (simp add: rerender_def streams_wf_body streams_wf_cleanup streams_wf_videoRef)

lemma streams_wf_dispatch: "streams_wf a \<Longrightarrow> streams_wf (dispatch acts a)"
  by (simp add: dispatch_def streams_wf_rerender streams_wf_ui)

lemma streams_wf_resolved:
  assumes "streams_wf a" and "n \<in> set (pending a)"
  shows "streams_wf (a\<lparr>pending := removeAll n (pending a), acquired := acquired a @ [n]\<rparr>)"
    and "streams_wf (a\<lparr>pending := removeAll n (pending a), acquired := acquired a @ [n],
                       streamRef := Some n\<rparr>)"
  using assms
  by (auto simp: streams_wf_def distinct_removeAll split: option.splits)

lemma streams_wf_drop_pending:
  "streams_wf a \<Longrightarrow> streams_wf (a\<lparr>pending := removeAll n (pending a)\<rparr>)"
  by (auto simp: streams_wf_def distinct_removeAll split: option.splits)

lemma streams_wf_step: "streams_wf a \<Longrightarrow> streams_wf (step a e)"
proof (cases e)
  case (StreamResolved n)
  assume "streams_wf a"
  with StreamResolved show ?thesis
    by (simp add: streams_wf_resolved)
next
  case (StreamRejected n)
  assume "streams_wf a"
  with StreamRejected show ?thesis
    by (simp add: streams_wf_dispatch streams_wf_drop_pending)
next
  case Unmounted
  assume "streams_wf a"
  with Unmounted show ?thesis
    by (simp add: streams_wf_cleanup streams_wf_videoRef streams_wf_mounted)
qed (simp_all add: streams_wf_dispatch)

lemma streams_wf_run: "streams_wf a \<Longrightarrow> streams_wf (run_events a evs)"
  by (induction evs arbitrary: a) (simp_all add: run_events_def streams_wf_step)

lemma stopped_at_most_once:
  "distinct (stopped (run_events init_app evs)) \<and>
   set (stopped (run_events init_app evs)) \<subseteq> set (acquired (run_events init_app evs))"
  using streams_wf_run [OF streams_wf_init, of evs] by (simp add: streams_wf_def)

text \<open>
  When the stream is held in \<open>streamRef\<close> at the time the camera is left, each of the three
  exits (cancel, unmount, a successful capture) stops it once and clears the ref.
\<close>

lemma exit_releases_held_stream:
  assumes "mounted a" and "isCameraOpen (ui a)" and "streamRef a = Some n"
  shows "stopped (step a CancelClicked) = stopped a @ [n]"
    and "streamRef (step a CancelClicked) = None"
    and "stopped (step a Unmounted) = stopped a @ [n]"
    and "streamRef (step a Unmounted) = None"
    and "videoRef a \<Longrightarrow> stopped (step a (SnapClicked (Some u) now)) = stopped a @ [n]"
    and "videoRef a \<Longrightarrow> streamRef (step a (SnapClicked (Some u) now)) = None"
  using assms
  by (simp_all add: dispatch_def rerender_def effect_body_def effect_cleanup_def
        run_actions_def handleTakePhoto_def)

section \<open>File selection\<close>

text \<open>
  C1. The two failures of a file selection differ in what they change. When the file's
  declared type does not start with \<open>image/\<close>, the only state change is that the error is
  replaced by the validation message; the stored originalImage stays. When the type is
  valid and the read fails, the error is replaced by the read-failure message and both
  originalImage and editedImage are set to absent.
\<close>

theorem C1_failure_effects:
  "(\<not> startsWith (ftype f) ''image/'' \<longrightarrow>
      run_actions s (handleFileChange (Some f) r) = s\<lparr>error := Some invalid_file_msg\<rparr>) \<and>
   (startsWith (ftype f) ''image/'' \<longrightarrow>
      run_actions s (handleFileChange (Some f) ReadFailed) =
        s\<lparr>error := Some read_failed_msg, editedImage := None, originalImage := None\<rparr>)"
  by (simp add: file_defs)

theorem C1_failure_effects_witness:
  "run_actions init_ui
     (handleFileChange (Some \<lparr>ftype = ''text/plain'', fname = ''a.txt''\<rparr>) ReadFailed)
     = init_ui\<lparr>error := Some invalid_file_msg\<rparr> \<and>
   run_actions init_ui
     (handleFileChange (Some \<lparr>ftype = ''image/png'', fname = ''b.png''\<rparr>) ReadFailed)
     = init_ui\<lparr>error := Some read_failed_msg, editedImage := None, originalImage := None\<rparr>"
  using C1_failure_effects [of "\<lparr>ftype = ''text/plain'', fname = ''a.txt''\<rparr>" init_ui ReadFailed]
        C1_failure_effects [of "\<lparr>ftype = ''image/png'', fname = ''b.png''\<rparr>" init_ui ReadFailed]
  by (simp add: startsWith_def)

text \<open>
  With an image stored, a PNG file whose read fails leaves no stored image behind: the
  \<open>catch\<close> block of line 64 calls \<open>setOriginalImage(null)\<close>.
\<close>

theorem C1_read_failure_clears_original:
  "originalImage
     (run_actions
        (init_ui\<lparr>originalImage :=
             Some \<lparr>base64 = Some ''AAAA'', mimeType = ''image/png'', name = ''a.png''\<rparr>\<rparr>)
        (handleFileChange (Some \<lparr>ftype = ''image/png'', fname = ''b.png''\<rparr>) ReadFailed))
   \<noteq> originalImage
       (init_ui\<lparr>originalImage :=
            Some \<lparr>base64 = Some ''AAAA'', mimeType = ''image/png'', name = ''a.png''\<rparr>\<rparr>)"
  by (simp add: file_defs startsWith_def)

text \<open>
  C4. For a file whose declared type starts with \<open>image/\<close> and whose read succeeds, the
  stored image has the file's declared type as mimeType, the file's name as name, and as
  base64 the body of the encoder's data URL with the scheme prefix stripped, that is, the
  portion after the first comma. The encoder's data URL is \<open>data:\<close>, the declared type,
  \<open>;base64,\<close> and the base64 body; neither a MIME type nor base64 text holds a comma, so
  its first comma is the one in front of the body. The first conjunct is for that form, the
  second for any data URL whose portion after the first comma is free of commas.
\<close>

theorem C4_stored_image:
  assumes "startsWith (ftype f) ''image/''"
  shows "(CHR '','' \<notin> set (ftype f) \<and> CHR '','' \<notin> set body \<longrightarrow>
            originalImage
              (run_actions s
                 (handleFileChange (Some f)
                    (ReadOk (''data:'' @ ftype f @ '';base64,'' @ body)))) =
              Some \<lparr>base64 = Some body, mimeType = ftype f, name = fname f\<rparr> \<and>
            after_first_comma (''data:'' @ ftype f @ '';base64,'' @ body) = body) \<and>
         (CHR '','' \<in> set url \<and> CHR '','' \<notin> set (after_first_comma url) \<longrightarrow>
            originalImage (run_actions s (handleFileChange (Some f) (ReadOk url))) =
              Some \<lparr>base64 = Some (after_first_comma url),
                    mimeType = ftype f, name = fname f\<rparr>)"
proof -
  have whole: "originalImage (run_actions s (handleFileChange (Some f) (ReadOk u))) =
      Some \<lparr>base64 = at_index (split_comma u) 1, mimeType = ftype f, name = fname f\<rparr>" for u
    using assms by (simp add: file_defs)
  have rest: "takeWhile (\<lambda>c. c \<noteq> CHR '','') r = r" if "CHR '','' \<notin> set r" for r
    using that by (auto simp: takeWhile_eq_all_conv)
  have general: "originalImage (run_actions s (handleFileChange (Some f) (ReadOk u))) =
      Some \<lparr>base64 = Some (after_first_comma u), mimeType = ftype f, name = fname f\<rparr>"
    if "CHR '','' \<in> set u" and "CHR '','' \<notin> set (after_first_comma u)" for u
    using that rest [of "after_first_comma u"] by (simp add: whole second_piece)
  have body: "after_first_comma (''data:'' @ ftype f @ '';base64,'' @ body) = body"
    if "CHR '','' \<notin> set (ftype f)"
  proof -
    have "dropWhile (\<lambda>c. c \<noteq> CHR '','') (ftype f @ '';base64,'' @ body) = CHR '','' # body"
      using that by (simp add: dropWhile_append3 dropWhile_append)
    then show ?thesis
      by (simp add: after_first_comma_def)
  qed
  have form: "originalImage
        (run_actions s
           (handleFileChange (Some f) (ReadOk (''data:'' @ ftype f @ '';base64,'' @ body)))) =
        Some \<lparr>base64 = Some body, mimeType = ftype f, name = fname f\<rparr>"
    if "CHR '','' \<notin> set (ftype f)" and "CHR '','' \<notin> set body"
    using general [of "''data:'' @ ftype f @ '';base64,'' @ body"] body [OF that(1)] that(2)
    by simp
  from form body general [of url] show ?thesis
    by blast
qed

theorem C4_stored_image_witness:
  "originalImage
     (run_actions init_ui
        (handleFileChange (Some \<lparr>ftype = ''image/png'', fname = ''red.png''\<rparr>)
           (ReadOk ''data:image/png;base64,iVBORw0KGgo='')))
   = Some \<lparr>base64 = Some ''iVBORw0KGgo='', mimeType = ''image/png'', name = ''red.png''\<rparr> \<and>
   after_first_comma ''data:image/png;base64,iVBORw0KGgo='' = ''iVBORw0KGgo=''"
proof -
  have ty: "startsWith (ftype \<lparr>ftype = ''image/png'', fname = ''red.png''\<rparr>) ''image/''"
    by (simp add: startsWith_def)
  from C4_stored_image [OF ty, of "''iVBORw0KGgo=''" init_ui "''data:image/png;base64,iVBORw0KGgo=''"]
  show ?thesis
    by simp
qed

text \<open>
  C5. Selecting a file whose declared type starts with \<open>image/\<close> clears any previously
  displayed edited result and any previous error, whatever the prior state: editedImage
  and error are both absent once the selection has been handled (the read is then pending),
  and both are absent when the handler ends after a successful read. The part that runs
  when the read has succeeded writes neither of the two, from whatever state \<open>s'\<close> it
  finds.
\<close>

theorem C5_selection_clears:
  assumes "startsWith (ftype f) ''image/''"
  shows "editedImage (run_actions s (handleFileChange_sync (Some f))) = None \<and>
         error (run_actions s (handleFileChange_sync (Some f))) = None \<and>
         editedImage (run_actions s (handleFileChange (Some f) (ReadOk url))) = None \<and>
         error (run_actions s (handleFileChange (Some f) (ReadOk url))) = None \<and>
         editedImage (run_actions s' (handleFileChange_settle f (ReadOk url))) = editedImage s' \<and>
         error (run_actions s' (handleFileChange_settle f (ReadOk url))) = error s'"
  using assms by (simp add: file_defs)

theorem C5_selection_clears_witness:
  "editedImage
     (run_actions (init_ui\<lparr>editedImage := Some ''data:image/png;base64,AAAA'',
                          error := Some ''An error occurred: quota exceeded''\<rparr>)
        (handleFileChange (Some \<lparr>ftype = ''image/png'', fname = ''b.png''\<rparr>)
           (ReadOk ''data:image/png;base64,iVBORw0KGgo=''))) = None \<and>
   error
     (run_actions (init_ui\<lparr>editedImage := Some ''data:image/png;base64,AAAA'',
                          error := Some ''An error occurred: quota exceeded''\<rparr>)
        (handleFileChange (Some \<lparr>ftype = ''image/png'', fname = ''b.png''\<rparr>)
           (ReadOk ''data:image/png;base64,iVBORw0KGgo=''))) = None"
proof -
  have ty: "startsWith (ftype \<lparr>ftype = ''image/png'', fname = ''b.png''\<rparr>) ''image/''"
    by (simp add: startsWith_def)
  from C5_selection_clears [OF ty] show ?thesis
    by blast
qed

text \<open>
  C9. A file-selection change event that carries no file makes no setter call and starts
  no read, so the whole UI state (originalImage, editedImage, prompt, isLoading, error,
  isCameraOpen) keeps its previous value.
\<close>

theorem C9_no_file_no_change:
  "handleFileChange None r = [] \<and> run_actions s (handleFileChange None r) = s"
  by (simp add: handleFileChange_def handleFileChange_sync_def run_actions_def)

section \<open>Submitting an edit\<close>

text \<open>
  C2. Submitting an edit when originalImage is absent or the prompt is empty only sets the
  error: the handler's one call is \<open>setError\<close>, so the remote edit call is not made, and
  isLoading, editedImage and originalImage keep their values.
\<close>

theorem C2_guard_rejects:
  assumes "originalImage s = None \<or> prompt s = []"
  shows "handleGenerateClick s out = [SetError (Some need_input_msg)] \<and>
         \<not> list_ex is_call (handleGenerateClick s out) \<and>
         run_actions s (handleGenerateClick s out) = s\<lparr>error := Some need_input_msg\<rparr> \<and>
         isLoading (run_actions s (handleGenerateClick s out)) = isLoading s \<and>
         editedImage (run_actions s (handleGenerateClick s out)) = editedImage s \<and>
         originalImage (run_actions s (handleGenerateClick s out)) = originalImage s"
  using assms by (auto simp: generate_defs split: option.splits)

theorem C2_guard_rejects_witness:
  "handleGenerateClick init_ui (Returned (Some ''AAAA'')) = [SetError (Some need_input_msg)] \<and>
   run_actions init_ui (handleGenerateClick init_ui (Returned (Some ''AAAA'')))
     = init_ui\<lparr>error := Some need_input_msg\<rparr> \<and>
   handleGenerateClick
     (init_ui\<lparr>originalImage :=
          Some \<lparr>base64 = Some ''AAAA'', mimeType = ''image/png'', name = ''a.png''\<rparr>,
        prompt := []\<rparr>)
     (Returned (Some ''AAAA'')) = [SetError (Some need_input_msg)]"
proof -
  let ?s = "init_ui\<lparr>originalImage :=
      Some \<lparr>base64 = Some ''AAAA'', mimeType = ''image/png'', name = ''a.png''\<rparr>,
    prompt := []\<rparr>"
  have no_image: "originalImage init_ui = None \<or> prompt init_ui = []"
    by (simp add: init_ui_def)
  have no_prompt: "originalImage ?s = None \<or> prompt ?s = []"
    by simp
  from C2_guard_rejects [OF no_image, of "Returned (Some ''AAAA'')"]
       C2_guard_rejects [OF no_prompt, of "Returned (Some ''AAAA'')"]
  show ?thesis
    by blast
qed

text \<open>
  C3. A submit-edit invocation that passes the guard calls \<open>setIsLoading(true)\<close> first and
  the remote call last in its synchronous part, so isLoading is true when the call is made;
  the part that runs once the call has settled ends with \<open>setIsLoading(false)\<close> for every
  outcome (a payload, no payload, a rejection), so isLoading is false afterwards, from the
  state the handler started in and from any state \<open>s'\<close> the settling finds.
\<close>

theorem C3_loading_flag:
  assumes "originalImage s = Some img" and "prompt s \<noteq> []"
  shows "handleGenerateClick_sync s =
           [SetIsLoading True, SetError None, SetEditedImage None,
            CallEditImage (base64 img) (mimeType img) (prompt s)] \<and>
         isLoading (run_actions s (handleGenerateClick_sync s)) \<and>
         handleGenerateClick s out = handleGenerateClick_sync s @ handleGenerateClick_settle out \<and>
         last (handleGenerateClick_settle out) = SetIsLoading False \<and>
         \<not> isLoading (run_actions s (handleGenerateClick s out)) \<and>
         \<not> isLoading (run_actions s' (handleGenerateClick_settle out))"
  using assms by (cases out) (auto simp: generate_defs split: option.splits)

theorem C3_loading_flag_witness:
  "isLoading
     (run_actions
        (init_ui\<lparr>originalImage :=
             Some \<lparr>base64 = Some ''AAAA'', mimeType = ''image/png'', name = ''a.png''\<rparr>\<rparr>)
        (handleGenerateClick_sync
           (init_ui\<lparr>originalImage :=
                Some \<lparr>base64 = Some ''AAAA'', mimeType = ''image/png'', name = ''a.png''\<rparr>\<rparr>))) \<and>
   \<not> isLoading
     (run_actions
        (init_ui\<lparr>originalImage :=
             Some \<lparr>base64 = Some ''AAAA'', mimeType = ''image/png'', name = ''a.png''\<rparr>\<rparr>)
        (handleGenerateClick
           (init_ui\<lparr>originalImage :=
                Some \<lparr>base64 = Some ''AAAA'', mimeType = ''image/png'', name = ''a.png''\<rparr>\<rparr>)
           (Threw ''quota exceeded'')))"
proof -
  let ?img = "\<lparr>base64 = Some ''AAAA'', mimeType = ''image/png'', name = ''a.png''\<rparr>"
  let ?s = "init_ui\<lparr>originalImage := Some ?img\<rparr>"
  have img: "originalImage ?s = Some ?img" by simp
  have pr: "prompt ?s \<noteq> []" by (simp add: init_ui_def default_prompt_def)
  from C3_loading_flag [OF img pr, of "Threw ''quota exceeded''"] show ?thesis
    by blast
qed

text \<open>
  C7. When the remote edit call completes without an image payload (\<open>null\<close>,
  \<open>undefined\<close> or the empty string), the error set is "An error occurred: The model did not
  return an image. Please try a different prompt."; when the call itself fails with the
  message \<open>m\<close>, the error set is "An error occurred: " followed by \<open>m\<close>. The no-image
  sentence is the application's own text; a remote failure carries the service's message,
  and for every such \<open>m\<close> other than that sentence the two errors differ. A rejection that
  carries no value at all sets no error, which differs from the no-payload error too.
\<close>

theorem C7_error_messages:
  assumes "originalImage s = Some img" and "prompt s \<noteq> []"
  shows "error (run_actions s (handleGenerateClick s (Returned None))) =
           Some ''An error occurred: The model did not return an image. Please try a different prompt.'' \<and>
         error (run_actions s (handleGenerateClick s (Returned (Some [])))) =
           Some ''An error occurred: The model did not return an image. Please try a different prompt.'' \<and>
         error (run_actions s (handleGenerateClick s (Threw m))) =
           Some (''An error occurred: '' @ m) \<and>
         (m \<noteq> ''The model did not return an image. Please try a different prompt.'' \<longrightarrow>
            error (run_actions s (handleGenerateClick s (Threw m))) \<noteq>
            error (run_actions s (handleGenerateClick s (Returned None)))) \<and>
         error (run_actions s (handleGenerateClick s ThrewNullish)) = None \<and>
         error (run_actions s (handleGenerateClick s ThrewNullish)) \<noteq>
           error (run_actions s (handleGenerateClick s (Returned None)))"
  using assms
  by (auto simp: generate_defs no_image_msg_def error_prefix_def)

theorem C7_error_messages_witness:
  "error
     (run_actions
        (init_ui\<lparr>originalImage :=
             Some \<lparr>base64 = Some ''AAAA'', mimeType = ''image/png'', name = ''a.png''\<rparr>\<rparr>)
        (handleGenerateClick
           (init_ui\<lparr>originalImage :=
                Some \<lparr>base64 = Some ''AAAA'', mimeType = ''image/png'', name = ''a.png''\<rparr>\<rparr>)
           (Threw ''quota exceeded'')))
   = Some ''An error occurred: quota exceeded'' \<and>
   error
     (run_actions
        (init_ui\<lparr>originalImage :=
             Some \<lparr>base64 = Some ''AAAA'', mimeType = ''image/png'', name = ''a.png''\<rparr>\<rparr>)
        (handleGenerateClick
           (init_ui\<lparr>originalImage :=
                Some \<lparr>base64 = Some ''AAAA'', mimeType = ''image/png'', name = ''a.png''\<rparr>\<rparr>)
           (Threw ''quota exceeded'')))
   \<noteq> error
     (run_actions
        (init_ui\<lparr>originalImage :=
             Some \<lparr>base64 = Some ''AAAA'', mimeType = ''image/png'', name = ''a.png''\<rparr>\<rparr>)
        (handleGenerateClick
           (init_ui\<lparr>originalImage :=
                Some \<lparr>base64 = Some ''AAAA'', mimeType = ''image/png'', name = ''a.png''\<rparr>\<rparr>)
           (Returned None)))"
proof -
  let ?img = "\<lparr>base64 = Some ''AAAA'', mimeType = ''image/png'', name = ''a.png''\<rparr>"
  let ?s = "init_ui\<lparr>originalImage := Some ?img\<rparr>"
  have img: "originalImage ?s = Some ?img" by simp
  have pr: "prompt ?s \<noteq> []" by (simp add: init_ui_def default_prompt_def)
  have other: "''quota exceeded'' \<noteq> ''The model did not return an image. Please try a different prompt.''"
    by simp
  from C7_error_messages [OF img pr, of "''quota exceeded''"] other show ?thesis
    by simp
qed

text \<open>
  C10. Whenever editedImage is non-absent it starts with the fixed prefix
  \<open>data:image/png;base64,\<close>: the initial state satisfies this, every event preserves it, so
  every reachable state satisfies it; and in a reachable state the rest of the value is a
  payload that a settled remote call returned. The prefix does not depend on the original
  image: a guarded submit whose call returns the non-empty payload \<open>p\<close> stores the prefix
  followed by \<open>p\<close>, whatever the image's MIME type.
\<close>

theorem C10_edited_image_shape:
  "edited_ok (ui init_app) \<and>
   (edited_ok (ui a) \<longrightarrow> edited_ok (ui (step a e))) \<and>
   edited_ok (ui (run_events init_app evs)) \<and>
   (editedImage (ui (run_events init_app evs)) = Some d \<longrightarrow>
      (\<exists>p. GenerateSettled (Returned (Some p)) \<in> set evs \<and>
           d = ''data:image/png;base64,'' @ p)) \<and>
   (originalImage s = Some img \<and> prompt s \<noteq> [] \<and> p \<noteq> [] \<longrightarrow>
      editedImage (run_actions s (handleGenerateClick s (Returned (Some p)))) =
        Some (''data:image/png;base64,'' @ p))"
proof -
  have init: "edited_ok (ui init_app)"
    by (simp add: init_app_def init_ui_def edited_ok_def)
  have none: "editedImage (ui init_app) = None"
    by (simp add: init_app_def init_ui_def)
  have trace: "editedImage (ui (run_events init_app evs)) = Some d \<longrightarrow>
      (\<exists>p. GenerateSettled (Returned (Some p)) \<in> set evs \<and>
           d = ''data:image/png;base64,'' @ p)"
    using edited_after_run [of init_app evs d] none
    by (auto simp: png_prefix_def)
  have direct: "originalImage s = Some img \<and> prompt s \<noteq> [] \<and> p \<noteq> [] \<longrightarrow>
      editedImage (run_actions s (handleGenerateClick s (Returned (Some p)))) =
        Some (''data:image/png;base64,'' @ p)"
    by (auto simp: generate_defs png_prefix_def)
  from init edited_ok_step edited_ok_run [OF init] trace direct show ?thesis
    by blast
qed

theorem C10_edited_image_shape_witness:
  "edited_ok (ui (step init_app (GenerateSettled (Returned (Some ''iVBORw0KGgo=''))))) \<and>
   editedImage (ui (step init_app (GenerateSettled (Returned (Some ''iVBORw0KGgo=''))))) =
     Some ''data:image/png;base64,iVBORw0KGgo=''"
proof -
  have val: "editedImage (ui (step init_app (GenerateSettled (Returned (Some ''iVBORw0KGgo=''))))) =
     Some ''data:image/png;base64,iVBORw0KGgo=''"
    by (simp add: ui_dispatch handleGenerateClick_settle_def run_actions_def png_prefix_def
          init_app_def)
  from C10_edited_image_shape [of init_app "GenerateSettled (Returned (Some ''iVBORw0KGgo=''))"]
    val show ?thesis
    by blast
qed

section \<open>The camera\<close>

text \<open>
  C6. A snap-photo action for which the video element, the canvas and its 2d context are
  all there sets originalImage to a capture tagged \<open>image/jpeg\<close> whose base64 is the piece
  of the canvas data URL after its first comma (up to a next comma, undefined without a
  comma) and whose name is \<open>webcam-photo-\<close>, the capture's timestamp and \<open>.jpg\<close>; it
  clears editedImage and error and sets isCameraOpen to false. When the video element, the
  canvas or the context is missing, the action changes nothing.
\<close>

theorem C6_capture:
  "(video \<and> canvas \<longrightarrow>
      run_actions s (handleTakePhoto video canvas (Some dataUrl) now) =
        s\<lparr>originalImage :=
             Some \<lparr>base64 =
                     (if CHR '','' \<in> set dataUrl
                      then Some (takeWhile (\<lambda>c. c \<noteq> CHR '','') (after_first_comma dataUrl))
                      else None),
                   mimeType = ''image/jpeg'',
                   name = ''webcam-photo-'' @ number_text now @ ''.jpg''\<rparr>,
           editedImage := None, error := None, isCameraOpen := False\<rparr>) \<and>
   (\<not> video \<or> \<not> canvas \<or> ctx = None \<longrightarrow>
      run_actions s (handleTakePhoto video canvas ctx now) = s)"
  by (auto simp: handleTakePhoto_def run_actions_def second_piece)

theorem C6_capture_witness:
  "run_actions (init_ui\<lparr>isCameraOpen := True\<rparr>)
     (handleTakePhoto True True (Some ''data:image/jpeg;base64,/9j/4AAQ'') 1700000000000) =
   init_ui\<lparr>originalImage :=
        Some \<lparr>base64 = Some ''/9j/4AAQ'', mimeType = ''image/jpeg'',
              name = ''webcam-photo-1700000000000.jpg''\<rparr>,
      editedImage := None, error := None, isCameraOpen := False\<rparr> \<and>
   run_actions (init_ui\<lparr>isCameraOpen := True\<rparr>)
     (handleTakePhoto False True (Some ''data:image/jpeg;base64,/9j/4AAQ'') 1700000000000) =
   init_ui\<lparr>isCameraOpen := True\<rparr>"
  using C6_capture [of True True "init_ui\<lparr>isCameraOpen := True\<rparr>"
          "''data:image/jpeg;base64,/9j/4AAQ''" 1700000000000 None]
        C6_capture [of False True "init_ui\<lparr>isCameraOpen := True\<rparr>" "[]" 1700000000000
          "Some ''data:image/jpeg;base64,/9j/4AAQ''"]
  by (simp add: after_first_comma_def number_text_def decimal.simps)

text \<open>
  With the dialog open and both elements there, a snap for which \<open>getContext('2d')\<close>
  returns \<open>null\<close> leaves the camera open.
\<close>

theorem C6_no_context_keeps_camera_open:
  "isCameraOpen
     (run_actions (init_ui\<lparr>isCameraOpen := True\<rparr>)
        (handleTakePhoto True True None 1700000000000))"
  by (simp add: handleTakePhoto_def run_actions_def)

text \<open>
  C8. Each acquired camera stream should be stopped exactly once, on every exit from the
  open camera. The code does not achieve this when the camera is left while
  \<open>getUserMedia\<close> is still pending: after opening the camera, cancelling, and only then
  the promise resolving with stream \<open>0\<close>, the camera is closed, stream \<open>0\<close> has been
  acquired, and no later sequence of events ever stops it. The cleanup ran while
  \<open>streamRef\<close> was still empty, and the \<open>then\<close> callback found \<open>videoRef.current\<close> null
  and dropped the stream.
\<close>

theorem C8_stream_never_stopped:
  "acquired (run_events init_app [CameraClicked, CancelClicked, StreamResolved 0]) = [0] \<and>
   \<not> isCameraOpen (ui (run_events init_app [CameraClicked, CancelClicked, StreamResolved 0])) \<and>
   (\<forall>evs. 0 \<notin> set (stopped
       (run_events (run_events init_app [CameraClicked, CancelClicked, StreamResolved 0]) evs)))"
proof -
  let ?a = "init_app\<lparr>requests := 1, acquired := [0]\<rparr>"
  have "0 \<notin> set (stopped (run_events ?a evs))" for evs
    by (rule stream_zero_lost_run) (simp_all add: init_app_def)
  then show ?thesis
    by (simp add: cancel_before_resolve) (simp add: init_app_def init_ui_def)
qed

end
